theory Spec2Isabelle
  imports Main "HOL-Library.AList"
begin

section \<open>Values and validation errors\<close>

text \<open>
  The module \<^verbatim>\<open>m01_example_schema.py\<close> consists of four Pydantic v2 model classes. What
  the classes do is fixed by their field declarations together with the validation that
  \<^verbatim>\<open>BaseModel\<close> runs over them in its default (lax) mode. The declarations are embedded
  below as tables, one per class, and the validation as an interpreter of such tables.

  Python values are restricted to the kinds the six fields can meet: \<^verbatim>\<open>None\<close>, booleans,
  unbounded integers, strings, datetimes, dictionaries with string keys (in insertion
  order) and arbitrary attribute-bearing objects (class name and attributes). Floats,
  bytes, decimals and dates are left out.
\<close>

record datetime =
  dt_year :: int
  dt_month :: int
  dt_day :: int
  dt_hour :: int
  dt_minute :: int
  dt_second :: int
  dt_microsecond :: int
  dt_utcoffset :: "int option"

datatype pyval =
    PNone
  | PBool bool
  | PInt int
  | PStr string
  | PDatetime datetime
  | PDict "(string \<times> pyval) list"
  | PObj string "(string \<times> pyval) list"

text \<open>The error kinds of the validators used here, named as pydantic names them.\<close>

datatype error_type =
    Missing
  | StringType
  | StringTooShort nat
  | StringTooLong nat
  | BoolType
  | BoolParsing
  | IntType
  | IntParsing
  | DatetimeType
  | DatetimeParsing string
  | DatetimeFromDateParsing string
  | ExtraForbidden
  | ModelType string
  | ModelAttributesType

text \<open>
  One entry of a \<^verbatim>\<open>ValidationError\<close>: the location (the field name for a field
  error, empty for an error on the input as a whole), the error kind, and the offending
  input value. A \<^verbatim>\<open>ValidationError\<close> is the list of its entries.
\<close>

record line_error =
  loc :: "string list"
  etype :: error_type
  einput :: pyval

type_synonym validation_error = "line_error list"

definition digit_char :: "nat \<Rightarrow> char" where
  "digit_char n = char_of (48 + n)"

fun show_nat :: "nat \<Rightarrow> string" where
  "show_nat n = (if n < 10 then [digit_char n] else show_nat (n div 10) @ [digit_char (n mod 10)])"

declare show_nat.simps [simp del]

definition plural :: "nat \<Rightarrow> string" where
  "plural n = (if n = 1 then [] else ''s'')"

text \<open>The message of an error kind (the tests of the repository quote the length ones).\<close>

fun message :: "error_type \<Rightarrow> string" where
  "message Missing = ''Field required''"
| "message StringType = ''Input should be a valid string''"
| "message (StringTooShort n) =
     ''String should have at least '' @ show_nat n @ '' character'' @ plural n"
| "message (StringTooLong n) =
     ''String should have at most '' @ show_nat n @ '' character'' @ plural n"
| "message BoolType = ''Input should be a valid boolean''"
| "message BoolParsing = ''Input should be a valid boolean, unable to interpret input''"
| "message IntType = ''Input should be a valid integer''"
| "message IntParsing =
     ''Input should be a valid integer, unable to parse string as an integer''"
| "message DatetimeType = ''Input should be a valid datetime''"
| "message (DatetimeParsing r) = ''Input should be a valid datetime, '' @ r"
| "message (DatetimeFromDateParsing r) = ''Input should be a valid datetime or date, '' @ r"
| "message ExtraForbidden = ''Extra inputs are not permitted''"
| "message (ModelType c) = ''Input should be a valid dictionary or instance of '' @ c"
| "message ModelAttributesType =
     ''Input should be a valid dictionary or object to extract fields from''"

fun type_name :: "pyval \<Rightarrow> string" where
  "type_name PNone = ''NoneType''"
| "type_name (PBool b) = ''bool''"
| "type_name (PInt i) = ''int''"
| "type_name (PStr s) = ''str''"
| "type_name (PDatetime d) = ''datetime''"
| "type_name (PDict d) = ''dict''"
| "type_name (PObj c a) = c"

text \<open>What a caller reads off one entry: field path, message, type of the offending value.\<close>

definition error_summary :: "line_error \<Rightarrow> string list \<times> string \<times> string" where
  "error_summary e = (loc e, message (etype e), type_name (einput e))"

section \<open>Field declarations and type validators\<close>

text \<open>
  The annotation of a field: \<^verbatim>\<open>str\<close> with the optional \<^verbatim>\<open>min_length\<close> and
  \<^verbatim>\<open>max_length\<close> of its \<^verbatim>\<open>Field(...)\<close>, \<^verbatim>\<open>bool\<close>, \<^verbatim>\<open>int\<close>, \<^verbatim>\<open>datetime\<close>, and
  \<^verbatim>\<open>T | None\<close>. In \<^verbatim>\<open>str | None = Field(..., min_length=1)\<close> the length constraints
  belong to the \<^verbatim>\<open>str\<close> inside the union.
\<close>

datatype ftype =
    TStr "nat option" "nat option"
  | TBool
  | TInt
  | TDatetime
  | TNullable ftype

text \<open>
  A field: its name, its annotation, and its default (\<open>None\<close> for the required marker
  \<^verbatim>\<open>...\<close>).
\<close>

record field_info =
  fname :: string
  fannot :: ftype
  fdefault :: "pyval option"

record model_class =
  cls_name :: string
  cls_fields :: "field_info list"
  extra_forbid :: bool
  from_attributes :: bool

text \<open>
  Lax mode also reads an integer out of a string and a datetime out of a string (a
  datetime, or a date taken at midnight) or an integer (a timestamp). Those parsers
  belong to the library and are taken as parameters; every theorem below holds for all
  of them. A datetime parser that fails gives the reason, which becomes part of the
  message.
\<close>

record lax_parsers =
  str_as_int :: "string \<Rightarrow> int option"
  str_as_datetime :: "string \<Rightarrow> string + datetime"
  int_as_datetime :: "int \<Rightarrow> string + datetime"

text \<open>Parsers that recognise nothing, for evaluating concrete inputs.\<close>

definition no_parsers :: lax_parsers where
  "no_parsers = \<lparr>str_as_int = (\<lambda>s. None),
     str_as_datetime = (\<lambda>s. Inl ''input is too short''),
     int_as_datetime = (\<lambda>i. Inl ''dates before 0000 are not supported as unix timestamps'')\<rparr>"

text \<open>A datetime for the concrete inputs: 2024-01-15 10:30:00, naive.\<close>

definition sample_time :: datetime where
  "sample_time = \<lparr>dt_year = 2024, dt_month = 1, dt_day = 15, dt_hour = 10, dt_minute = 30,
     dt_second = 0, dt_microsecond = 0, dt_utcoffset = None\<rparr>"

definition ascii_lower :: "char \<Rightarrow> char" where
  "ascii_lower c =
     (let n = (of_char c :: nat) in if 65 \<le> n \<and> n \<le> 90 then char_of (n + 32) else c)"

definition str_as_bool :: "string \<Rightarrow> error_type + bool" where
  "str_as_bool s =
     (let l = map ascii_lower s in
      if s = ''0'' \<or> l \<in> set [''f'', ''n'', ''no'', ''off'', ''false''] then Inr False
      else if s = ''1'' \<or> l \<in> set [''t'', ''y'', ''on'', ''yes'', ''true''] then Inr True
      else Inl BoolParsing)"

definition int_as_bool :: "int \<Rightarrow> error_type + bool" where
  "int_as_bool i = (if i = 0 then Inr False else if i = 1 then Inr True else Inl BoolParsing)"

text \<open>The string validator: the type first, then \<^verbatim>\<open>min_length\<close>, then \<^verbatim>\<open>max_length\<close>.\<close>

fun validate_str :: "nat option \<Rightarrow> nat option \<Rightarrow> pyval \<Rightarrow> error_type + pyval" where
  "validate_str mn mx (PStr s) =
     (case mn of
        Some lo \<Rightarrow> if length s < lo then Inl (StringTooShort lo)
          else (case mx of
                  Some hi \<Rightarrow> if hi < length s then Inl (StringTooLong hi) else Inr (PStr s)
                | None \<Rightarrow> Inr (PStr s))
      | None \<Rightarrow>
          (case mx of
             Some hi \<Rightarrow> if hi < length s then Inl (StringTooLong hi) else Inr (PStr s)
           | None \<Rightarrow> Inr (PStr s)))"
| "validate_str mn mx v = Inl StringType"

fun validate_bool :: "pyval \<Rightarrow> error_type + pyval" where
  "validate_bool (PBool b) = Inr (PBool b)"
| "validate_bool (PStr s) = map_sum id PBool (str_as_bool s)"
| "validate_bool (PInt i) = map_sum id PBool (int_as_bool i)"
| "validate_bool v = Inl BoolType"

fun validate_int :: "lax_parsers \<Rightarrow> pyval \<Rightarrow> error_type + pyval" where
  "validate_int P (PInt i) = Inr (PInt i)"
| "validate_int P (PBool b) = Inr (PInt (if b then 1 else 0))"
| "validate_int P (PStr s) =
     (case str_as_int P s of Some i \<Rightarrow> Inr (PInt i) | None \<Rightarrow> Inl IntParsing)"
| "validate_int P v = Inl IntType"

text \<open>
  The datetime validator. A string that is neither a datetime nor a date is reported
  as \<^verbatim>\<open>datetime_from_date_parsing\<close>, an integer that is no timestamp as
  \<^verbatim>\<open>datetime_parsing\<close>, each with the parser's reason.
\<close>

fun validate_datetime :: "lax_parsers \<Rightarrow> pyval \<Rightarrow> error_type + pyval" where
  "validate_datetime P (PDatetime d) = Inr (PDatetime d)"
| "validate_datetime P (PStr s) =
     (case str_as_datetime P s of
        Inr d \<Rightarrow> Inr (PDatetime d)
      | Inl r \<Rightarrow> Inl (DatetimeFromDateParsing r))"
| "validate_datetime P (PBool b) = Inl DatetimeType"
| "validate_datetime P (PInt i) =
     (case int_as_datetime P i of
        Inr d \<Rightarrow> Inr (PDatetime d)
      | Inl r \<Rightarrow> Inl (DatetimeParsing r))"
| "validate_datetime P v = Inl DatetimeType"

fun validate_type :: "lax_parsers \<Rightarrow> ftype \<Rightarrow> pyval \<Rightarrow> error_type + pyval" where
  "validate_type P (TStr mn mx) v = validate_str mn mx v"
| "validate_type P TBool v = validate_bool v"
| "validate_type P TInt v = validate_int P v"
| "validate_type P TDatetime v = validate_datetime P v"
| "validate_type P (TNullable t) v = (if v = PNone then Inr PNone else validate_type P t v)"

section \<open>Validating a model\<close>

text \<open>
  The state of the loop over the declared fields: the errors so far, the validated
  field values (the instance's \<^verbatim>\<open>__dict__\<close>), the names of the fields the caller
  supplied (\<^verbatim>\<open>model_fields_set\<close>), and the input keys that a field has consumed.
\<close>

record fields_state =
  errors :: "line_error list"
  model_dict :: "(string \<times> pyval) list"
  fields_set :: "string set"
  used_keys :: "string set"

definition init_state :: fields_state where
  "init_state = \<lparr>errors = [], model_dict = [], fields_set = {}, used_keys = {}\<rparr>"

text \<open>
  One field: a value found under the field's name is validated and either stored or
  reported; with no value the default is stored unvalidated, and a field without
  default is reported missing, the offending input being the whole input.
\<close>

definition field_step ::
  "lax_parsers \<Rightarrow> pyval \<Rightarrow> (string \<Rightarrow> pyval option) \<Rightarrow> field_info \<Rightarrow> fields_state \<Rightarrow> fields_state"
where
  "field_step P inp get f st =
     (case get (fname f) of
        Some v \<Rightarrow>
          (case validate_type P (fannot f) v of
             Inr v' \<Rightarrow> st\<lparr>model_dict := model_dict st @ [(fname f, v')],
                          fields_set := insert (fname f) (fields_set st),
                          used_keys := insert (fname f) (used_keys st)\<rparr>
           | Inl e \<Rightarrow> st\<lparr>errors := errors st @ [\<lparr>loc = [fname f], etype = e, einput = v\<rparr>],
                         used_keys := insert (fname f) (used_keys st)\<rparr>)
      | None \<Rightarrow>
          (case fdefault f of
             Some dv \<Rightarrow> st\<lparr>model_dict := model_dict st @ [(fname f, dv)]\<rparr>
           | None \<Rightarrow>
               st\<lparr>errors := errors st @ [\<lparr>loc = [fname f], etype = Missing, einput = inp\<rparr>]\<rparr>))"

fun validate_fields ::
  "lax_parsers \<Rightarrow> pyval \<Rightarrow> (string \<Rightarrow> pyval option) \<Rightarrow> field_info list \<Rightarrow> fields_state \<Rightarrow> fields_state"
where
  "validate_fields P inp get [] st = st"
| "validate_fields P inp get (f # fs) st =
     validate_fields P inp get fs (field_step P inp get f st)"

text \<open>With \<^verbatim>\<open>extra="forbid"\<close>, every input key that no field consumed is reported.\<close>

fun extra_errors :: "string set \<Rightarrow> (string \<times> pyval) list \<Rightarrow> line_error list" where
  "extra_errors used [] = []"
| "extra_errors used ((k, v) # d) =
     (if k \<in> used then extra_errors used d
      else \<lparr>loc = [k], etype = ExtraForbidden, einput = v\<rparr> # extra_errors used d)"

text \<open>
  A model instance: its class, its \<^verbatim>\<open>__dict__\<close> in field order, and its
  \<^verbatim>\<open>model_fields_set\<close>.
\<close>

record model_instance =
  inst_class :: string
  inst_dict :: "(string \<times> pyval) list"
  inst_fields_set :: "string set"

text \<open>
  Validation of the fields of a class against a dictionary or against the attributes
  of an object (\<open>by_attr\<close>). Input keys are checked for extras only for a dictionary.
  All errors are raised together; an instance exists only when there is none.
\<close>

definition validate_model_fields ::
  "lax_parsers \<Rightarrow> model_class \<Rightarrow> pyval \<Rightarrow> bool \<Rightarrow> (string \<times> pyval) list
     \<Rightarrow> validation_error + model_instance"
where
  "validate_model_fields P cls inp by_attr d =
     (let st = validate_fields P inp (map_of d) (cls_fields cls) init_state;
          errs = errors st @
            (if extra_forbid cls \<and> \<not> by_attr then extra_errors (used_keys st) d else [])
      in if errs = [] then
           Inr \<lparr>inst_class = cls_name cls, inst_dict = model_dict st,
                inst_fields_set = fields_set st\<rparr>
         else Inl errs)"

text \<open>
  \<^verbatim>\<open>Cls(**data)\<close> and \<^verbatim>\<open>Cls.model_validate(obj)\<close>: a dictionary is read by key; any
  other object is read by attribute when the class sets \<^verbatim>\<open>from_attributes=True\<close> and the
  object is not of a builtin or datetime type; everything else is rejected as a whole.
\<close>

fun model_validate :: "lax_parsers \<Rightarrow> model_class \<Rightarrow> pyval \<Rightarrow> validation_error + model_instance" where
  "model_validate P cls (PDict d) = validate_model_fields P cls (PDict d) False d"
| "model_validate P cls (PObj c a) =
     (if from_attributes cls then validate_model_fields P cls (PObj c a) True a
      else Inl [\<lparr>loc = [], etype = ModelType (cls_name cls), einput = PObj c a\<rparr>])"
| "model_validate P cls v =
     Inl [\<lparr>loc = [],
           etype = (if from_attributes cls then ModelAttributesType
                    else ModelType (cls_name cls)),
           einput = v\<rparr>]"

text \<open>\<^verbatim>\<open>model_dump()\<close>: the field values as a dictionary, in field order.\<close>

definition model_dump :: "model_instance \<Rightarrow> pyval" where
  "model_dump m = PDict (inst_dict m)"

text \<open>
  \<^verbatim>\<open>BaseModel.__eq__\<close>: same class and equal \<^verbatim>\<open>__dict__\<close> (as dictionaries, so
  regardless of order); \<^verbatim>\<open>model_fields_set\<close> takes no part.
\<close>

definition model_eq :: "model_instance \<Rightarrow> model_instance \<Rightarrow> bool" where
  "model_eq a b \<longleftrightarrow> inst_class a = inst_class b \<and> map_of (inst_dict a) = map_of (inst_dict b)"

definition getattr :: "model_instance \<Rightarrow> string \<Rightarrow> pyval option" where
  "getattr m k = map_of (inst_dict m) k"

section \<open>The schemas of the module\<close>

definition ExampleBase_fields :: "field_info list" where
  "ExampleBase_fields =
     [\<lparr>fname = ''name'', fannot = TStr (Some 1) (Some 100), fdefault = None\<rparr>,
      \<lparr>fname = ''description'', fannot = TNullable (TStr None (Some 500)),
        fdefault = Some PNone\<rparr>,
      \<lparr>fname = ''is_active'', fannot = TBool, fdefault = Some (PBool True)\<rparr>]"

definition ExampleCreate :: model_class where
  "ExampleCreate = \<lparr>cls_name = ''ExampleCreate'', cls_fields = ExampleBase_fields,
     extra_forbid = False, from_attributes = False\<rparr>"

definition ExampleUpdate :: model_class where
  "ExampleUpdate = \<lparr>cls_name = ''ExampleUpdate'',
     cls_fields =
       [\<lparr>fname = ''name'', fannot = TNullable (TStr (Some 1) (Some 100)),
          fdefault = Some PNone\<rparr>,
        \<lparr>fname = ''description'', fannot = TNullable (TStr None (Some 500)),
          fdefault = Some PNone\<rparr>,
        \<lparr>fname = ''is_active'', fannot = TNullable TBool, fdefault = Some PNone\<rparr>],
     extra_forbid = True, from_attributes = False\<rparr>"

definition ExampleRead :: model_class where
  "ExampleRead = \<lparr>cls_name = ''ExampleRead'',
     cls_fields = ExampleBase_fields @
       [\<lparr>fname = ''id'', fannot = TInt, fdefault = None\<rparr>,
        \<lparr>fname = ''created_at'', fannot = TDatetime, fdefault = None\<rparr>,
        \<lparr>fname = ''updated_at'', fannot = TDatetime, fdefault = None\<rparr>],
     extra_forbid = False, from_attributes = True\<rparr>"

definition parse_create :: "lax_parsers \<Rightarrow> pyval \<Rightarrow> validation_error + model_instance" where
  "parse_create P x = model_validate P ExampleCreate x"

definition parse_update :: "lax_parsers \<Rightarrow> pyval \<Rightarrow> validation_error + model_instance" where
  "parse_update P x = model_validate P ExampleUpdate x"

definition parse_read :: "lax_parsers \<Rightarrow> pyval \<Rightarrow> validation_error + model_instance" where
  "parse_read P x = model_validate P ExampleRead x"

section \<open>Vocabulary for the properties\<close>

text \<open>
  A declared field is invalid in an input when the value supplied for it does not pass
  the validator of its annotation, or when none is supplied and it has no default.
\<close>

definition field_invalid :: "lax_parsers \<Rightarrow> (string \<Rightarrow> pyval option) \<Rightarrow> field_info \<Rightarrow> bool" where
  "field_invalid P get f =
     (case get (fname f) of
        Some v \<Rightarrow> isl (validate_type P (fannot f) v)
      | None \<Rightarrow> fdefault f = None)"

text \<open>The keys of a dictionary, in order, that are not names of fields of the class.\<close>

definition unknown_keys :: "model_class \<Rightarrow> (string \<times> pyval) list \<Rightarrow> string list" where
  "unknown_keys cls d = filter (\<lambda>k. k \<notin> set (map fname (cls_fields cls))) (map fst d)"

text \<open>
  The paths a failed validation of a dictionary has to report: the invalid fields in
  declaration order, then, for a class that forbids extras, the unknown keys.
\<close>

definition invalid_paths ::
  "lax_parsers \<Rightarrow> model_class \<Rightarrow> (string \<times> pyval) list \<Rightarrow> string list list" where
  "invalid_paths P cls d =
     map (\<lambda>f. [fname f]) (filter (field_invalid P (map_of d)) (cls_fields cls)) @
     (if extra_forbid cls then map (\<lambda>k. [k]) (unknown_keys cls d) else [])"

text \<open>
  The fields an input exposes to a class: the items of a mapping, or the attributes of
  an object when the class reads attributes; nothing for any other input.
\<close>

definition input_fields :: "model_class \<Rightarrow> pyval \<Rightarrow> (string \<times> pyval) list option" where
  "input_fields cls x =
     (case x of
        PDict d \<Rightarrow> Some d
      | PObj c a \<Rightarrow> if from_attributes cls then Some a else None
      | _ \<Rightarrow> None)"

text \<open>
  What one entry of an error has to say about an input \<open>x\<close> with fields \<open>d\<close>: its path
  is a single name \<open>k\<close>, and either \<open>k\<close> is a field without default that \<open>d\<close> lacks,
  reported missing with the whole input as offending value; or \<open>k\<close> is a field whose
  supplied value the validator of its annotation rejects with the kind of the entry;
  or the class forbids extras and \<open>k\<close> is an item of \<open>d\<close> that names no field.
\<close>

definition entry_reports ::
  "lax_parsers \<Rightarrow> model_class \<Rightarrow> pyval \<Rightarrow> (string \<times> pyval) list \<Rightarrow> line_error \<Rightarrow> bool" where
  "entry_reports P cls x d e \<longleftrightarrow>
     (\<exists>k. loc e = [k] \<and>
        ((\<exists>f\<in>set (cls_fields cls). fname f = k \<and> fdefault f = None \<and>
            k \<notin> fst ` set d \<and> etype e = Missing \<and> einput e = x) \<or>
         (\<exists>f\<in>set (cls_fields cls). fname f = k \<and> map_of d k = Some (einput e) \<and>
            validate_type P (fannot f) (einput e) = Inl (etype e)) \<or>
         (extra_forbid cls \<and> k \<notin> fname ` set (cls_fields cls) \<and>
            (k, einput e) \<in> set d \<and> etype e = ExtraForbidden)))"

section \<open>The loop over the fields\<close>

text \<open>
  Each field contributes to the four components of the state independently of the
  fields before it, so the final state is the concatenation (or union) of what each
  field yields from the initial state.
\<close>

lemma init_state_simps:
  "errors init_state = []" "model_dict init_state = []"
  "fields_set init_state = {}" "used_keys init_state = {}"
  by (simp_all add: init_state_def)

lemma errors_field_step:
  "errors (field_step P inp get f st) = errors st @ errors (field_step P inp get f init_state)"
  by (simp add: field_step_def init_state_def split: option.splits sum.splits)

lemma dict_field_step:
  "model_dict (field_step P inp get f st) =
     model_dict st @ model_dict (field_step P inp get f init_state)"
  by (simp add: field_step_def init_state_def split: option.splits sum.splits)

lemma fset_field_step:
  "fields_set (field_step P inp get f st) =
     fields_set st \<union> fields_set (field_step P inp get f init_state)"
  by (simp add: field_step_def init_state_def split: option.splits sum.splits)

lemma used_field_step:
  "used_keys (field_step P inp get f st) =
     used_keys st \<union> used_keys (field_step P inp get f init_state)"
  by (simp add: field_step_def init_state_def split: option.splits sum.splits)

lemma validate_fields_errors:
  "errors (validate_fields P inp get fs st) =
     errors st @ concat (map (\<lambda>f. errors (field_step P inp get f init_state)) fs)"
proof (induction fs arbitrary: st)
  case Nil
  show ?case by simp
next
  case (Cons f fs)
  show ?case by (simp add: Cons.IH errors_field_step [of P inp get f st])
qed

lemma validate_fields_dict:
  "model_dict (validate_fields P inp get fs st) =
     model_dict st @ concat (map (\<lambda>f. model_dict (field_step P inp get f init_state)) fs)"
proof (induction fs arbitrary: st)
  case Nil
  show ?case by simp
next
  case (Cons f fs)
  show ?case by (simp add: Cons.IH dict_field_step [of P inp get f st])
qed

lemma validate_fields_set:
  "fields_set (validate_fields P inp get fs st) =
     fields_set st \<union> (\<Union>f\<in>set fs. fields_set (field_step P inp get f init_state))"
proof (induction fs arbitrary: st)
  case Nil
  show ?case by simp
next
  case (Cons f fs)
  show ?case by (simp add: Cons.IH fset_field_step [of P inp get f st] Un_assoc)
qed

lemma validate_fields_used:
  "used_keys (validate_fields P inp get fs st) =
     used_keys st \<union> (\<Union>f\<in>set fs. used_keys (field_step P inp get f init_state))"
proof (induction fs arbitrary: st)
  case Nil
  show ?case by simp
next
  case (Cons f fs)
  show ?case by (simp add: Cons.IH used_field_step [of P inp get f st] Un_assoc)
qed

text \<open>A field yields at most one error, and yields one exactly when it is invalid.\<close>

lemma step_errors_valid:
  "\<not> field_invalid P get f \<Longrightarrow> errors (field_step P inp get f init_state) = []"
  by (auto simp: field_invalid_def field_step_def init_state_def
      split: option.splits sum.splits)

lemma step_errors_invalid:
  "field_invalid P get f \<Longrightarrow>
   \<exists>e. errors (field_step P inp get f init_state) = [e] \<and> loc e = [fname f] \<and>
     (case get (fname f) of
        Some v \<Rightarrow> einput e = v \<and> validate_type P (fannot f) v = Inl (etype e)
      | None \<Rightarrow> einput e = inp \<and> etype e = Missing)"
  by (auto simp: field_invalid_def field_step_def init_state_def
      split: option.splits sum.splits)

lemma step_locs:
  "map loc (errors (field_step P inp get f init_state)) =
     (if field_invalid P get f then [[fname f]] else [])"
  by (auto simp: field_invalid_def field_step_def init_state_def
      split: option.splits sum.splits)

lemma fields_locs:
  "map loc (errors (validate_fields P inp get fs init_state)) =
     map (\<lambda>f. [fname f]) (filter (field_invalid P get) fs)"
proof -
  have "map loc (concat (map (\<lambda>f. errors (field_step P inp get f init_state)) fs)) =
      map (\<lambda>f. [fname f]) (filter (field_invalid P get) fs)"
    by (induction fs) (simp_all add: step_locs)
  then show ?thesis by (simp add: validate_fields_errors init_state_simps)
qed

lemma step_used:
  "used_keys (field_step P inp get f init_state) =
     (if get (fname f) = None then {} else {fname f})"
  by (auto simp: field_step_def init_state_def split: option.splits sum.splits)

lemma fields_used:
  "used_keys (validate_fields P inp get fs init_state) =
     {k \<in> fname ` set fs. get k \<noteq> None}"
  by (auto simp: validate_fields_used step_used init_state_simps split: if_splits)

text \<open>The extras check reports exactly the keys that name no field.\<close>

lemma extra_errors_locs:
  "map loc (extra_errors used d) = map (\<lambda>k. [k]) (filter (\<lambda>k. k \<notin> used) (map fst d))"
  by (induction d) auto

lemma extra_errors_cong:
  "(\<And>k. k \<in> fst ` set d \<Longrightarrow> (k \<in> used) = (k \<in> used')) \<Longrightarrow>
   extra_errors used d = extra_errors used' d"
  by (induction d) auto

lemma extra_errors_fields:
  "extra_errors (used_keys (validate_fields P inp (map_of d) fs init_state)) d =
     extra_errors (fname ` set fs) d"
  by (rule extra_errors_cong) (auto simp: fields_used map_of_eq_None_iff)

lemma extra_locs:
  "map loc (extra_errors (fname ` set (cls_fields cls)) d) =
     map (\<lambda>k. [k]) (unknown_keys cls d)"
  by (simp add: extra_errors_locs unknown_keys_def)

lemma extra_errors_entry:
  "e \<in> set (extra_errors used d) \<Longrightarrow>
   \<exists>k v. (k, v) \<in> set d \<and> k \<notin> used \<and> e = \<lparr>loc = [k], etype = ExtraForbidden, einput = v\<rparr>"
  by (induction d) (auto split: if_splits)

lemma extra_errors_mem:
  "(k, v) \<in> set d \<Longrightarrow> k \<notin> used \<Longrightarrow>
   \<lparr>loc = [k], etype = ExtraForbidden, einput = v\<rparr> \<in> set (extra_errors used d)"
  by (induction d) auto

text \<open>Validation of a dictionary fails exactly when there is a path to report.\<close>

lemma vmf_dict_locs:
  "validate_model_fields P cls inp False d = Inl errs \<Longrightarrow>
   map loc errs = invalid_paths P cls d"
  by (auto simp: validate_model_fields_def Let_def invalid_paths_def fields_locs
      extra_errors_fields extra_locs split: if_splits)

lemma vmf_dict_isl:
  "isl (validate_model_fields P cls inp False d) \<longleftrightarrow> invalid_paths P cls d \<noteq> []"
proof -
  let ?st = "validate_fields P inp (map_of d) (cls_fields cls) init_state"
  let ?errs = "errors ?st @ (if extra_forbid cls then extra_errors (used_keys ?st) d else [])"
  have "map loc ?errs = invalid_paths P cls d"
    by (simp add: invalid_paths_def fields_locs extra_errors_fields extra_locs)
  then have "?errs = [] \<longleftrightarrow> invalid_paths P cls d = []"
    by (metis map_is_Nil_conv)
  then show ?thesis by (simp add: validate_model_fields_def Let_def)
qed

section \<open>Validators\<close>

lemma validate_str_bounds:
  "isl (validate_str (Some lo) (Some hi) v) \<longleftrightarrow>
     \<not> (\<exists>s. v = PStr s \<and> lo \<le> length s \<and> length s \<le> hi)"
  by (cases v) auto

lemma validate_str_max:
  "isl (validate_str None (Some hi) v) \<longleftrightarrow> \<not> (\<exists>s. v = PStr s \<and> length s \<le> hi)"
  by (cases v) auto

lemma validate_str_Inr:
  "validate_str mn mx v = Inr w \<Longrightarrow> w = v \<and> validate_str mn mx w = Inr w"
  by (cases v) (auto split: option.splits if_splits)

lemma validate_bool_Inr:
  "validate_bool v = Inr w \<Longrightarrow> validate_bool w = Inr w"
  by (cases v) (auto simp: str_as_bool_def int_as_bool_def Let_def split: if_splits)

lemma validate_int_Inr:
  "validate_int P v = Inr w \<Longrightarrow> validate_int P w = Inr w"
  by (cases v) (auto split: option.splits)

lemma validate_datetime_Inr:
  "validate_datetime P v = Inr w \<Longrightarrow> validate_datetime P w = Inr w"
  by (cases v) (auto split: sum.splits)

text \<open>What the boolean validator accepts.\<close>

lemma validate_bool_accepts:
  "\<not> isl (validate_bool v) \<longleftrightarrow>
     (\<exists>b. v = PBool b) \<or> v = PInt 0 \<or> v = PInt 1 \<or>
     (\<exists>s. v = PStr s \<and>
        (s = ''0'' \<or> s = ''1'' \<or>
         map ascii_lower s \<in> {''f'', ''n'', ''no'', ''off'', ''false'',
                               ''t'', ''y'', ''on'', ''yes'', ''true''}))"
  by (cases v) (auto simp: str_as_bool_def int_as_bool_def Let_def)

text \<open>A validated value passes its validator unchanged.\<close>

lemma validate_type_idem:
  "validate_type P t v = Inr w \<Longrightarrow> validate_type P t w = Inr w"
  by (induction t)
    (auto dest: validate_str_Inr validate_bool_Inr validate_int_Inr validate_datetime_Inr
      split: if_splits)

lemma validate_str_not_missing: "validate_str mn mx v \<noteq> Inl Missing"
  by (cases v) (auto split: option.splits)

lemma validate_bool_not_missing: "validate_bool v \<noteq> Inl Missing"
  by (cases v) (auto simp: str_as_bool_def int_as_bool_def Let_def)

lemma validate_int_not_missing: "validate_int P v \<noteq> Inl Missing"
  by (cases v) (auto split: option.splits)

lemma validate_datetime_not_missing: "validate_datetime P v \<noteq> Inl Missing"
  by (cases v) (auto split: sum.splits)

lemma validate_type_not_missing: "validate_type P t v = Inl e \<Longrightarrow> e \<noteq> Missing"
  by (induction t)
    (auto simp: validate_str_not_missing validate_bool_not_missing validate_int_not_missing
      validate_datetime_not_missing split: if_splits)

lemma message_nonempty: "message t \<noteq> []"
  by (cases t) simp_all

text \<open>The three messages that the tests of the repository look for.\<close>

lemma message_too_short_1:
  "message (StringTooShort 1) = ''String should have at least 1 character''"
  by code_simp

lemma message_too_long_100:
  "message (StringTooLong 100) = ''String should have at most 100 characters''"
  by code_simp

lemma message_too_long_500:
  "message (StringTooLong 500) = ''String should have at most 500 characters''"
  by code_simp

section \<open>Entries and instances\<close>

lemma model_validate_nonempty: "model_validate P cls x = Inl errs \<Longrightarrow> errs \<noteq> []"
  by (cases x) (auto simp: validate_model_fields_def Let_def split: if_splits)

lemma step_dict_valid:
  assumes "errors (field_step P inp get f init_state) = []"
    and "\<And>dv. fdefault f = Some dv \<Longrightarrow> validate_type P (fannot f) dv = Inr dv"
  shows "\<exists>w. model_dict (field_step P inp get f init_state) = [(fname f, w)] \<and>
           validate_type P (fannot f) w = Inr w"
  using assms
  by (auto simp: field_step_def init_state_def split: option.splits sum.splits
      dest: validate_type_idem)

lemma step_fields_set:
  "k \<in> fields_set (field_step P inp (map_of d) f init_state) \<Longrightarrow> k \<in> fst ` set d"
proof -
  assume "k \<in> fields_set (field_step P inp (map_of d) f init_state)"
  then have "map_of d k \<noteq> None"
    by (auto simp: field_step_def init_state_def split: option.splits sum.splits)
  then show ?thesis by (simp add: map_of_eq_None_iff)
qed

lemma vmf_Inr:
  assumes "validate_model_fields P cls inp b d = Inr m"
  shows "inst_class m = cls_name cls"
    and "inst_dict m =
      concat (map (\<lambda>f. model_dict (field_step P inp (map_of d) f init_state)) (cls_fields cls))"
    and "\<forall>f\<in>set (cls_fields cls). errors (field_step P inp (map_of d) f init_state) = []"
    and "inst_fields_set m \<subseteq> fst ` set d"
  using assms
  by (auto simp: validate_model_fields_def Let_def validate_fields_errors validate_fields_dict
      validate_fields_set init_state_simps map_of_eq_None_iff split: if_splits
      dest!: step_fields_set)

text \<open>Every entry of a failed validation reports a field or an unknown key.\<close>

lemma step_error_reports:
  "e \<in> set (errors (field_step P inp get f init_state)) \<Longrightarrow>
   loc e = [fname f] \<and>
     (fdefault f = None \<and> get (fname f) = None \<and> einput e = inp \<and> etype e = Missing \<or>
      get (fname f) = Some (einput e) \<and>
        validate_type P (fannot f) (einput e) = Inl (etype e))"
  by (auto simp: field_step_def init_state_def split: option.splits sum.splits)

lemma fields_error_reports:
  assumes "e \<in> set (errors (validate_fields P inp (map_of d) (cls_fields cls) init_state))"
  shows "entry_reports P cls inp d e"
proof -
  from assms obtain f :: field_info where f: "f \<in> set (cls_fields cls)"
    "e \<in> set (errors (field_step P inp (map_of d) f init_state))"
    by (auto simp: validate_fields_errors init_state_simps)
  from step_error_reports [OF f(2)] f(1) show ?thesis
    unfolding entry_reports_def by (auto simp: map_of_eq_None_iff)
qed

lemma extra_error_reports:
  assumes "e \<in> set (extra_errors (fname ` set (cls_fields cls)) d)" and "extra_forbid cls"
  shows "entry_reports P cls inp d e"
  using extra_errors_entry [OF assms(1)] assms(2)
  unfolding entry_reports_def by auto

lemma vmf_reports:
  assumes "validate_model_fields P cls inp b d = Inl errs"
  shows "\<forall>e\<in>set errs. entry_reports P cls inp d e"
proof
  fix e assume "e \<in> set errs"
  let ?st = "validate_fields P inp (map_of d) (cls_fields cls) init_state"
  from assms \<open>e \<in> set errs\<close> consider
    (field) "e \<in> set (errors ?st)"
    | (extra) "extra_forbid cls" "e \<in> set (extra_errors (fname ` set (cls_fields cls)) d)"
    by (auto simp: validate_model_fields_def Let_def extra_errors_fields split: if_splits)
  then show "entry_reports P cls inp d e"
  proof cases
    case field
    then show ?thesis by (rule fields_error_reports)
  next
    case extra
    from extra(2,1) show ?thesis by (rule extra_error_reports)
  qed
qed

lemma fields_error_mem:
  assumes "f \<in> set fs" and "get (fname f) = Some v"
    and "validate_type P (fannot f) v = Inl t"
  shows "\<lparr>loc = [fname f], etype = t, einput = v\<rparr>
           \<in> set (errors (validate_fields P inp get fs init_state))"
proof -
  from assms(2,3) have "errors (field_step P inp get f init_state) =
      [\<lparr>loc = [fname f], etype = t, einput = v\<rparr>]"
    by (simp add: field_step_def init_state_def)
  with assms(1) show ?thesis
    by (force simp: validate_fields_errors init_state_simps)
qed

lemma vmf_error_mem:
  assumes "validate_model_fields P cls inp b d = Inl errs"
    and "f \<in> set (cls_fields cls)" and "map_of d (fname f) = Some v"
    and "validate_type P (fannot f) v = Inl t"
  shows "\<lparr>loc = [fname f], etype = t, einput = v\<rparr> \<in> set errs"
proof -
  from fields_error_mem [where get = "map_of d" and fs = "cls_fields cls" and f = f
      and v = v and P = P and t = t and inp = inp, OF assms(2-4)]
  have "\<lparr>loc = [fname f], etype = t, einput = v\<rparr>
      \<in> set (errors (validate_fields P inp (map_of d) (cls_fields cls) init_state))" .
  with assms(1) show ?thesis
    by (auto simp: validate_model_fields_def Let_def split: if_splits)
qed

lemma vmf_locs:
  assumes "validate_model_fields P cls inp b d = Inl errs" and "b \<longrightarrow> \<not> extra_forbid cls"
  shows "map loc errs = invalid_paths P cls d"
proof -
  from assms have "validate_model_fields P cls inp False d = Inl errs"
    by (cases b) (simp_all add: validate_model_fields_def)
  then show ?thesis by (rule vmf_dict_locs)
qed

text \<open>The input as a whole is only quoted by the entry of a missing field.\<close>

lemma field_step_input:
  "fdefault f \<noteq> None \<or> get (fname f) \<noteq> None \<Longrightarrow>
   field_step P inp get f st = field_step P inp' get f st"
  by (auto simp: field_step_def split: option.splits sum.splits)

lemma validate_fields_input:
  "\<forall>f\<in>set fs. fdefault f \<noteq> None \<or> get (fname f) \<noteq> None \<Longrightarrow>
   validate_fields P inp get fs st = validate_fields P inp' get fs st"
proof (induction fs arbitrary: st)
  case Nil
  show ?case by simp
next
  case (Cons f fs)
  then show ?case by (simp add: field_step_input [of f get P inp st inp'])
qed

lemma extra_errors_update:
  "k \<in> used \<Longrightarrow> extra_errors used (AList.update k v d) = extra_errors used d"
  by (induction d) auto

section \<open>The three schemas\<close>

lemma create_fields_simps:
  "cls_fields ExampleCreate =
     [\<lparr>fname = ''name'', fannot = TStr (Some 1) (Some 100), fdefault = None\<rparr>,
      \<lparr>fname = ''description'', fannot = TNullable (TStr None (Some 500)),
        fdefault = Some PNone\<rparr>,
      \<lparr>fname = ''is_active'', fannot = TBool, fdefault = Some (PBool True)\<rparr>]"
  "\<not> extra_forbid ExampleCreate" "cls_name ExampleCreate = ''ExampleCreate''"
  by (simp_all add: ExampleCreate_def ExampleBase_fields_def)

lemma update_fields_simps:
  "cls_fields ExampleUpdate =
       [\<lparr>fname = ''name'', fannot = TNullable (TStr (Some 1) (Some 100)),
          fdefault = Some PNone\<rparr>,
        \<lparr>fname = ''description'', fannot = TNullable (TStr None (Some 500)),
          fdefault = Some PNone\<rparr>,
        \<lparr>fname = ''is_active'', fannot = TNullable TBool, fdefault = Some PNone\<rparr>]"
  "extra_forbid ExampleUpdate" "cls_name ExampleUpdate = ''ExampleUpdate''"
  by (simp_all add: ExampleUpdate_def)

lemma read_fields_simps:
  "cls_fields ExampleRead =
     [\<lparr>fname = ''name'', fannot = TStr (Some 1) (Some 100), fdefault = None\<rparr>,
      \<lparr>fname = ''description'', fannot = TNullable (TStr None (Some 500)),
        fdefault = Some PNone\<rparr>,
      \<lparr>fname = ''is_active'', fannot = TBool, fdefault = Some (PBool True)\<rparr>,
      \<lparr>fname = ''id'', fannot = TInt, fdefault = None\<rparr>,
      \<lparr>fname = ''created_at'', fannot = TDatetime, fdefault = None\<rparr>,
      \<lparr>fname = ''updated_at'', fannot = TDatetime, fdefault = None\<rparr>]"
  "\<not> extra_forbid ExampleRead" "from_attributes ExampleRead"
  "cls_name ExampleRead = ''ExampleRead''"
  by (simp_all add: ExampleRead_def ExampleBase_fields_def)

lemmas eval_defs = parse_create_def parse_update_def parse_read_def
  ExampleCreate_def ExampleUpdate_def ExampleRead_def ExampleBase_fields_def
  validate_model_fields_def field_step_def init_state_def no_parsers_def

lemma invalid_required:
  "field_invalid P get \<lparr>fname = k, fannot = t, fdefault = None\<rparr> \<longleftrightarrow>
   \<not> (\<exists>v. get k = Some v \<and> \<not> isl (validate_type P t v))"
  by (auto simp: field_invalid_def split: option.splits)

lemma invalid_description:
  "field_invalid P get \<lparr>fname = ''description'', fannot = TNullable (TStr None (Some 500)),
      fdefault = Some PNone\<rparr> \<longleftrightarrow>
   \<not> (get ''description'' = None \<or> get ''description'' = Some PNone \<or>
      (\<exists>s. get ''description'' = Some (PStr s) \<and> length s \<le> 500))"
  by (auto simp: field_invalid_def validate_str_max split: option.splits)

lemma invalid_is_active:
  "field_invalid P get \<lparr>fname = ''is_active'', fannot = TBool,
      fdefault = Some (PBool True)\<rparr> \<longleftrightarrow>
   (\<exists>v. get ''is_active'' = Some v \<and> isl (validate_bool v))"
  by (auto simp: field_invalid_def split: option.splits)

lemma create_paths_Nil:
  "invalid_paths P ExampleCreate d = [] \<longleftrightarrow>
     (\<exists>s. map_of d ''name'' = Some (PStr s) \<and> 1 \<le> length s \<and> length s \<le> 100) \<and>
     (map_of d ''description'' = None \<or> map_of d ''description'' = Some PNone \<or>
        (\<exists>s. map_of d ''description'' = Some (PStr s) \<and> length s \<le> 500)) \<and>
     \<not> (\<exists>v. map_of d ''is_active'' = Some v \<and> isl (validate_bool v))"
  by (auto simp: invalid_paths_def create_fields_simps invalid_description invalid_is_active invalid_required validate_str_bounds
      simp del: One_nat_def validate_str.simps)

lemma read_paths_Nil:
  "invalid_paths P ExampleRead d = [] \<longleftrightarrow>
     (\<exists>s. map_of d ''name'' = Some (PStr s) \<and> 1 \<le> length s \<and> length s \<le> 100) \<and>
     (map_of d ''description'' = None \<or> map_of d ''description'' = Some PNone \<or>
        (\<exists>s. map_of d ''description'' = Some (PStr s) \<and> length s \<le> 500)) \<and>
     \<not> (\<exists>v. map_of d ''is_active'' = Some v \<and> isl (validate_bool v)) \<and>
     (\<exists>v. map_of d ''id'' = Some v \<and> \<not> isl (validate_int P v)) \<and>
     (\<exists>v. map_of d ''created_at'' = Some v \<and> \<not> isl (validate_datetime P v)) \<and>
     (\<exists>v. map_of d ''updated_at'' = Some v \<and> \<not> isl (validate_datetime P v))"
  by (auto simp: invalid_paths_def read_fields_simps invalid_description invalid_is_active invalid_required validate_str_bounds
      simp del: One_nat_def validate_str.simps)

lemma vmf_by_attr:
  "\<not> extra_forbid cls \<Longrightarrow>
   validate_model_fields P cls inp b d = validate_model_fields P cls inp False d"
  by (simp add: validate_model_fields_def)

lemma parse_read_isl:
  "isl (parse_read P (PDict a)) \<longleftrightarrow> invalid_paths P ExampleRead a \<noteq> []"
  "isl (parse_read P (PObj c a)) \<longleftrightarrow> invalid_paths P ExampleRead a \<noteq> []"
  using vmf_by_attr [of ExampleRead P "PObj c a" True a]
  by (simp_all add: parse_read_def read_fields_simps vmf_dict_isl)

section \<open>Read\<close>

text \<open>
  C1. \<^verbatim>\<open>parse_read\<close> fails unless all six fields (\<^verbatim>\<open>name\<close>, \<^verbatim>\<open>description\<close>,
  \<^verbatim>\<open>is_active\<close>, \<^verbatim>\<open>id\<close>, \<^verbatim>\<open>created_at\<close>, \<^verbatim>\<open>updated_at\<close>) are present and well-typed,
  and for \<^verbatim>\<open>{name: "Test"}\<close> the error cites each missing field; the test
  \<^verbatim>\<open>test_read_missing_required_fields\<close> says the same (``all fields are required'').
  The class does not do this. It inherits \<^verbatim>\<open>description\<close> and \<^verbatim>\<open>is_active\<close> with their
  defaults, so a mapping or an object with only the other four fields is accepted, and
  for \<^verbatim>\<open>{name: "Test"}\<close> the error cites \<^verbatim>\<open>id\<close>, \<^verbatim>\<open>created_at\<close> and \<^verbatim>\<open>updated_at\<close> but
  neither \<^verbatim>\<open>description\<close> nor \<^verbatim>\<open>is_active\<close>.
\<close>

theorem parse_read_accepts_four_fields:
  "parse_read no_parsers
     (PDict [(''id'', PInt 1), (''name'', PStr ''Test''),
             (''created_at'', PDatetime sample_time), (''updated_at'', PDatetime sample_time)]) =
   Inr \<lparr>inst_class = ''ExampleRead'',
        inst_dict = [(''name'', PStr ''Test''), (''description'', PNone),
          (''is_active'', PBool True), (''id'', PInt 1),
          (''created_at'', PDatetime sample_time), (''updated_at'', PDatetime sample_time)],
        inst_fields_set = {''name'', ''id'', ''created_at'', ''updated_at''}\<rparr> \<and>
   parse_read no_parsers
     (PObj ''Record'' [(''id'', PInt 1), (''name'', PStr ''Test''),
             (''created_at'', PDatetime sample_time), (''updated_at'', PDatetime sample_time)]) =
   Inr \<lparr>inst_class = ''ExampleRead'',
        inst_dict = [(''name'', PStr ''Test''), (''description'', PNone),
          (''is_active'', PBool True), (''id'', PInt 1),
          (''created_at'', PDatetime sample_time), (''updated_at'', PDatetime sample_time)],
        inst_fields_set = {''name'', ''id'', ''created_at'', ''updated_at''}\<rparr> \<and>
   parse_read no_parsers (PDict [(''name'', PStr ''Test'')]) =
     Inl [\<lparr>loc = [''id''], etype = Missing, einput = PDict [(''name'', PStr ''Test'')]\<rparr>,
          \<lparr>loc = [''created_at''], etype = Missing, einput = PDict [(''name'', PStr ''Test'')]\<rparr>,
          \<lparr>loc = [''updated_at''], etype = Missing, einput = PDict [(''name'', PStr ''Test'')]\<rparr>]"
  by (auto simp: eval_defs)

text \<open>
  What the class requires, of a mapping and of an object alike: \<^verbatim>\<open>parse_read\<close>
  succeeds exactly when \<^verbatim>\<open>name\<close> is a string of 1 to 100 characters, \<^verbatim>\<open>description\<close> is
  absent, null or a string of at most 500 characters, \<^verbatim>\<open>is_active\<close> is absent or passes
  the boolean validator, \<^verbatim>\<open>id\<close> passes the integer validator and both timestamps pass
  the datetime validator.
\<close>

lemma parse_read_fails_iff:
  assumes "x = PDict d \<or> x = PObj c d"
  shows "isl (parse_read P x) \<longleftrightarrow>
      \<not> ((\<exists>s. map_of d ''name'' = Some (PStr s) \<and> 1 \<le> length s \<and> length s \<le> 100) \<and>
         (map_of d ''description'' = None \<or> map_of d ''description'' = Some PNone \<or>
            (\<exists>s. map_of d ''description'' = Some (PStr s) \<and> length s \<le> 500)) \<and>
         \<not> (\<exists>v. map_of d ''is_active'' = Some v \<and> isl (validate_bool v)) \<and>
         (\<exists>v. map_of d ''id'' = Some v \<and> \<not> isl (validate_int P v)) \<and>
         (\<exists>v. map_of d ''created_at'' = Some v \<and> \<not> isl (validate_datetime P v)) \<and>
         (\<exists>v. map_of d ''updated_at'' = Some v \<and> \<not> isl (validate_datetime P v)))"
proof -
  have "isl (parse_read P x) \<longleftrightarrow> invalid_paths P ExampleRead d \<noteq> []"
    using assms by (auto simp: parse_read_isl)
  then show ?thesis by (simp only: read_paths_Nil)
qed

text \<open>
  C2 (as stated). \<^verbatim>\<open>parse_read\<close> does not reject an input on account of the length of
  \<^verbatim>\<open>name\<close> or \<^verbatim>\<open>description\<close>. It does: the constraints are part of the fields that
  \<^verbatim>\<open>ExampleRead\<close> inherits, and an empty \<^verbatim>\<open>name\<close> is rejected as too short.
\<close>

theorem parse_read_empty_name_counterexample:
  "parse_read no_parsers
     (PDict [(''id'', PInt 1), (''name'', PStr ''''), (''description'', PNone),
             (''is_active'', PBool True),
             (''created_at'', PDatetime sample_time), (''updated_at'', PDatetime sample_time)]) =
   Inl [\<lparr>loc = [''name''], etype = StringTooShort 1, einput = PStr ''''\<rparr>]"
  by (simp add: eval_defs)

text \<open>
  C2 (amended). Constructing the Read shape validates the lengths as Create does: from
  a mapping or from an object, \<^verbatim>\<open>parse_read\<close> fails when \<^verbatim>\<open>name\<close> is a string of fewer
  than 1 or more than 100 characters, and when \<^verbatim>\<open>description\<close> is a string of more than
  500 characters.
\<close>

theorem parse_read_enforces_lengths:
  assumes "x = PDict d \<or> x = PObj c d"
  shows "(map_of d ''name'' = Some (PStr s) \<and> (length s < 1 \<or> 100 < length s)
            \<longrightarrow> isl (parse_read P x)) \<and>
         (map_of d ''description'' = Some (PStr s) \<and> 500 < length s \<longrightarrow> isl (parse_read P x))"
proof -
  have "isl (parse_read P x) \<longleftrightarrow> invalid_paths P ExampleRead d \<noteq> []"
    using assms by (auto simp: parse_read_isl)
  then show ?thesis by (auto simp: read_paths_Nil)
qed

theorem parse_read_enforces_lengths_witness:
  "isl (parse_read no_parsers
     (PObj ''MockORM'' [(''id'', PInt 1), (''name'', PStr ''''), (''description'', PNone),
             (''is_active'', PBool True),
             (''created_at'', PDatetime sample_time), (''updated_at'', PDatetime sample_time)]))"
  using parse_read_enforces_lengths [where c = "''MockORM''" and s = "[]" and P = no_parsers
      and d = "[(''id'', PInt 1), (''name'', PStr []), (''description'', PNone),
             (''is_active'', PBool True),
             (''created_at'', PDatetime sample_time), (''updated_at'', PDatetime sample_time)]"]
  by simp

section \<open>Create\<close>

text \<open>
  C3. For every string \<open>s\<close> with \<open>1 \<le> len(s) \<le> 100\<close>, \<^verbatim>\<open>parse_create\<close> on the
  mapping \<^verbatim>\<open>{name: s}\<close> succeeds, and the resulting instance has \<^verbatim>\<open>name\<close> equal to
  \<open>s\<close>, \<^verbatim>\<open>description\<close> equal to \<^verbatim>\<open>None\<close> and \<^verbatim>\<open>is_active\<close> equal to \<^verbatim>\<open>True\<close>.
\<close>

theorem parse_create_name_only:
  assumes "1 \<le> length s" and "length s \<le> 100"
  shows "\<exists>m. parse_create P (PDict [(''name'', PStr s)]) = Inr m \<and>
           getattr m ''name'' = Some (PStr s) \<and>
           getattr m ''description'' = Some PNone \<and>
           getattr m ''is_active'' = Some (PBool True)"
  using assms
  by (auto simp: parse_create_def ExampleCreate_def ExampleBase_fields_def
      validate_model_fields_def field_step_def init_state_def getattr_def)

theorem parse_create_name_only_witness:
  "1 \<le> length ''Test Item'' \<and> length ''Test Item'' \<le> 100 \<and>
   (\<exists>m. parse_create no_parsers (PDict [(''name'', PStr ''Test Item'')]) = Inr m \<and>
      getattr m ''name'' = Some (PStr ''Test Item'') \<and>
      getattr m ''description'' = Some PNone \<and>
      getattr m ''is_active'' = Some (PBool True))"
  using parse_create_name_only [of "''Test Item''" no_parsers] by simp

text \<open>
  C5 (as stated). \<^verbatim>\<open>parse_create\<close> fails exactly when a length or requiredness
  constraint is violated. It also fails on a value of the wrong type: here \<^verbatim>\<open>name\<close> is
  present with four characters and no length is exceeded, yet the input is rejected
  because \<^verbatim>\<open>is_active\<close> cannot be read as a boolean.
\<close>

theorem parse_create_bad_bool_counterexample:
  "parse_create no_parsers (PDict [(''name'', PStr ''Test''), (''is_active'', PStr ''maybe'')]) =
   Inl [\<lparr>loc = [''is_active''], etype = BoolParsing, einput = PStr ''maybe''\<rparr>]"
  by (simp add: eval_defs str_as_bool_def ascii_lower_def)

text \<open>
  C5 (amended). \<^verbatim>\<open>parse_create\<close> of a mapping fails exactly when a requiredness, type
  or length constraint is violated: \<^verbatim>\<open>name\<close> absent, not a string, empty or longer than
  100 characters; \<^verbatim>\<open>description\<close> present and neither null nor a string of at most 500
  characters; \<^verbatim>\<open>is_active\<close> present and rejected by the boolean validator. With a valid
  \<^verbatim>\<open>name\<close>, a \<^verbatim>\<open>description\<close> of exactly 500 characters succeeds and one of 501 fails.
\<close>

theorem parse_create_fails_iff:
  "(isl (parse_create P (PDict d)) \<longleftrightarrow>
      \<not> ((\<exists>s. map_of d ''name'' = Some (PStr s) \<and> 1 \<le> length s \<and> length s \<le> 100) \<and>
         (map_of d ''description'' = None \<or> map_of d ''description'' = Some PNone \<or>
            (\<exists>s. map_of d ''description'' = Some (PStr s) \<and> length s \<le> 500)) \<and>
         \<not> (\<exists>v. map_of d ''is_active'' = Some v \<and> isl (validate_bool v)))) \<and>
   (length t = 500 \<longrightarrow>
      \<not> isl (parse_create P (PDict [(''name'', PStr ''Test''), (''description'', PStr t)]))) \<and>
   (length t = 501 \<longrightarrow>
      isl (parse_create P (PDict [(''name'', PStr ''Test''), (''description'', PStr t)])))"
proof -
  have iff: "isl (parse_create P (PDict d)) \<longleftrightarrow> invalid_paths P ExampleCreate d \<noteq> []" for d
    by (simp only: parse_create_def model_validate.simps vmf_dict_isl)
  show ?thesis by (simp add: iff create_paths_Nil)
qed

theorem parse_create_fails_iff_witness:
  "isl (parse_create no_parsers (PDict [])) \<and>
   isl (parse_create no_parsers (PDict [(''name'', PStr '''')])) \<and>
   isl (parse_create no_parsers (PDict [(''name'', PStr (replicate 101 CHR ''a''))])) \<and>
   isl (parse_create no_parsers
     (PDict [(''name'', PStr ''Test''), (''description'', PStr (replicate 501 CHR ''a''))])) \<and>
   \<not> isl (parse_create no_parsers
     (PDict [(''name'', PStr ''Test''), (''description'', PStr (replicate 500 CHR ''a''))]))"
  using parse_create_fails_iff [of no_parsers "[]" "replicate 500 CHR ''a''"]
    parse_create_fails_iff [of no_parsers "[(''name'', PStr [])]" "replicate 501 CHR ''a''"]
    parse_create_fails_iff [of no_parsers "[(''name'', PStr (replicate 101 CHR ''a''))]" "[]"]
  by simp

text \<open>What a successfully created instance holds.\<close>

lemma create_success:
  assumes "parse_create P (PDict d) = Inr m"
  shows "\<exists>n dv a. inst_dict m = [(''name'', n), (''description'', dv), (''is_active'', a)] \<and>
     inst_class m = ''ExampleCreate'' \<and>
     validate_type P (TStr (Some 1) (Some 100)) n = Inr n \<and>
     validate_type P (TNullable (TStr None (Some 500))) dv = Inr dv \<and>
     validate_type P TBool a = Inr a"
proof -
  let ?step = "\<lambda>f. field_step P (PDict d) (map_of d) f init_state"
  let ?n = "\<lparr>fname = ''name'', fannot = TStr (Some 1) (Some 100), fdefault = None\<rparr>"
  let ?d = "\<lparr>fname = ''description'', fannot = TNullable (TStr None (Some 500)),
        fdefault = Some PNone\<rparr>"
  let ?a = "\<lparr>fname = ''is_active'', fannot = TBool, fdefault = Some (PBool True)\<rparr>"
  from assms have v: "validate_model_fields P ExampleCreate (PDict d) False d = Inr m"
    by (simp add: parse_create_def)
  from vmf_Inr(3) [OF v] have e: "errors (?step ?n) = []" "errors (?step ?d) = []"
      "errors (?step ?a) = []"
    by (simp_all add: create_fields_simps)
  from step_dict_valid [OF e(1)] obtain n where
    n: "model_dict (?step ?n) = [(''name'', n)]"
      "validate_type P (TStr (Some 1) (Some 100)) n = Inr n"
    by auto
  from step_dict_valid [OF e(2)] obtain dv where
    dv: "model_dict (?step ?d) = [(''description'', dv)]"
      "validate_type P (TNullable (TStr None (Some 500))) dv = Inr dv"
    by auto
  from step_dict_valid [OF e(3)] obtain a where
    a: "model_dict (?step ?a) = [(''is_active'', a)]" "validate_type P TBool a = Inr a"
    by auto
  from vmf_Inr(1,2) [OF v] n dv a show ?thesis
    by (simp add: create_fields_simps)
qed

text \<open>
  C9. Round trip for Create: whenever \<^verbatim>\<open>parse_create\<close> succeeds on a mapping,
  dumping the instance back to a mapping and applying \<^verbatim>\<open>parse_create\<close> again succeeds
  with an instance equal to the first.
\<close>

theorem create_round_trip:
  assumes "parse_create P (PDict c) = Inr m"
  shows "\<exists>m'. parse_create P (model_dump m) = Inr m' \<and> model_eq m m'"
proof -
  from create_success [OF assms] obtain n dv a where
    m: "inst_dict m = [(''name'', n), (''description'', dv), (''is_active'', a)]"
      "inst_class m = ''ExampleCreate''"
    and v: "validate_type P (TStr (Some 1) (Some 100)) n = Inr n"
      "validate_type P (TNullable (TStr None (Some 500))) dv = Inr dv"
      "validate_type P TBool a = Inr a"
    by blast
  have "parse_create P (model_dump m) =
      Inr \<lparr>inst_class = ''ExampleCreate'', inst_dict = inst_dict m,
        inst_fields_set = {''name'', ''description'', ''is_active''}\<rparr>"
    unfolding parse_create_def model_dump_def model_validate.simps validate_model_fields_def
      Let_def validate_fields_errors validate_fields_dict validate_fields_set
      create_fields_simps
    using v by (auto simp: m field_step_def init_state_simps simp del: validate_type.simps)
  then show ?thesis by (simp add: model_eq_def m)
qed

theorem create_round_trip_witness:
  "parse_create no_parsers (PDict [(''name'', PStr ''Test Item''), (''is_active'', PInt 0)]) =
     Inr \<lparr>inst_class = ''ExampleCreate'',
          inst_dict = [(''name'', PStr ''Test Item''), (''description'', PNone),
            (''is_active'', PBool False)],
          inst_fields_set = {''name'', ''is_active''}\<rparr> \<and>
   (\<exists>m'. parse_create no_parsers
       (PDict [(''name'', PStr ''Test Item''), (''description'', PNone),
            (''is_active'', PBool False)]) = Inr m' \<and>
      model_eq \<lparr>inst_class = ''ExampleCreate'',
          inst_dict = [(''name'', PStr ''Test Item''), (''description'', PNone),
            (''is_active'', PBool False)],
          inst_fields_set = {''name'', ''is_active''}\<rparr> m')"
proof -
  have p: "parse_create no_parsers
      (PDict [(''name'', PStr ''Test Item''), (''is_active'', PInt 0)]) =
     Inr \<lparr>inst_class = ''ExampleCreate'',
          inst_dict = [(''name'', PStr ''Test Item''), (''description'', PNone),
            (''is_active'', PBool False)],
          inst_fields_set = {''name'', ''is_active''}\<rparr>"
    by (auto simp: eval_defs int_as_bool_def)
  from create_round_trip [OF p] p show ?thesis by (simp add: model_dump_def)
qed

section \<open>Update\<close>

text \<open>
  C4. \<^verbatim>\<open>parse_update\<close> fails for every mapping with a key outside \<^verbatim>\<open>name\<close>,
  \<^verbatim>\<open>description\<close>, \<^verbatim>\<open>is_active\<close>, and the error has an entry for that key (the key is
  rejected, not dropped); \<^verbatim>\<open>parse_create\<close> does not forbid extra keys: on
  \<^verbatim>\<open>{name: "Test", extra_field: "value"}\<close> it succeeds, and the instance has no such field.
\<close>

theorem parse_update_rejects_unknown_keys:
  "(\<forall>k v. (k, v) \<in> set d \<and> k \<notin> {''name'', ''description'', ''is_active''} \<longrightarrow>
      (\<exists>errs. parse_update P (PDict d) = Inl errs \<and>
         \<lparr>loc = [k], etype = ExtraForbidden, einput = v\<rparr> \<in> set errs)) \<and>
   (\<exists>m. parse_create P (PDict [(''name'', PStr ''Test''), (''extra_field'', PStr ''value'')]) =
         Inr m \<and> getattr m ''extra_field'' = None)"
proof (intro conjI allI impI)
  fix k v
  assume a: "(k, v) \<in> set d \<and> k \<notin> {''name'', ''description'', ''is_active''}"
  then have "k \<notin> fname ` set (cls_fields ExampleUpdate)"
    by (simp add: update_fields_simps)
  with a have "\<lparr>loc = [k], etype = ExtraForbidden, einput = v\<rparr>
      \<in> set (extra_errors (fname ` set (cls_fields ExampleUpdate)) d)"
    by (simp add: extra_errors_mem)
  then show "\<exists>errs. parse_update P (PDict d) = Inl errs \<and>
         \<lparr>loc = [k], etype = ExtraForbidden, einput = v\<rparr> \<in> set errs"
    by (auto simp: parse_update_def validate_model_fields_def Let_def extra_errors_fields
        update_fields_simps(2))
next
  show "\<exists>m. parse_create P (PDict [(''name'', PStr ''Test''), (''extra_field'', PStr ''value'')]) =
         Inr m \<and> getattr m ''extra_field'' = None"
    by (simp add: parse_create_def ExampleCreate_def ExampleBase_fields_def
        validate_model_fields_def field_step_def init_state_def getattr_def)
qed

theorem parse_update_rejects_unknown_keys_witness:
  "\<exists>errs. parse_update no_parsers
       (PDict [(''name'', PStr ''Test''), (''extra_field'', PStr ''value'')]) = Inl errs \<and>
     \<lparr>loc = [''extra_field''], etype = ExtraForbidden, einput = PStr ''value''\<rparr> \<in> set errs"
  using parse_update_rejects_unknown_keys
    [of "[(''name'', PStr ''Test''), (''extra_field'', PStr ''value'')]" no_parsers]
  by simp

text \<open>
  Supplying null for an absent nullable field with default null changes nothing but
  the set of supplied fields.
\<close>

lemma step_null:
  assumes "get k = None" and "fdefault f = Some PNone" and "fannot f = TNullable t"
  shows "errors (field_step P inp' (get(k \<mapsto> PNone)) f init_state) =
           errors (field_step P inp get f init_state)"
    and "model_dict (field_step P inp' (get(k \<mapsto> PNone)) f init_state) =
           model_dict (field_step P inp get f init_state)"
    and "fields_set (field_step P inp' (get(k \<mapsto> PNone)) f init_state) =
           fields_set (field_step P inp get f init_state) \<union> (if fname f = k then {k} else {})"
  using assms
  by (auto simp: field_step_def init_state_def split: option.splits sum.splits)

lemma fields_null:
  assumes "get k = None"
    and "\<forall>f\<in>set fs. fdefault f = Some PNone \<and> (\<exists>t. fannot f = TNullable t)"
  shows "errors (validate_fields P inp' (get(k \<mapsto> PNone)) fs init_state) =
           errors (validate_fields P inp get fs init_state)"
    and "model_dict (validate_fields P inp' (get(k \<mapsto> PNone)) fs init_state) =
           model_dict (validate_fields P inp get fs init_state)"
    and "fields_set (validate_fields P inp' (get(k \<mapsto> PNone)) fs init_state) =
           fields_set (validate_fields P inp get fs init_state) \<union>
             (if k \<in> fname ` set fs then {k} else {})"
proof -
  have e: "errors (field_step P inp' (get(k \<mapsto> PNone)) f init_state) =
           errors (field_step P inp get f init_state)"
    and m: "model_dict (field_step P inp' (get(k \<mapsto> PNone)) f init_state) =
           model_dict (field_step P inp get f init_state)"
    and s: "fields_set (field_step P inp' (get(k \<mapsto> PNone)) f init_state) =
           fields_set (field_step P inp get f init_state) \<union> (if fname f = k then {k} else {})"
    if "f \<in> set fs" for f
    using that assms step_null [of get k f _ P inp' inp] by blast+
  show "errors (validate_fields P inp' (get(k \<mapsto> PNone)) fs init_state) =
           errors (validate_fields P inp get fs init_state)"
    unfolding validate_fields_errors using e by (simp cong: map_cong)
  show "model_dict (validate_fields P inp' (get(k \<mapsto> PNone)) fs init_state) =
           model_dict (validate_fields P inp get fs init_state)"
    unfolding validate_fields_dict using m by (simp cong: map_cong)
  show "fields_set (validate_fields P inp' (get(k \<mapsto> PNone)) fs init_state) =
           fields_set (validate_fields P inp get fs init_state) \<union>
             (if k \<in> fname ` set fs then {k} else {})"
    unfolding validate_fields_set using s by (auto split: if_splits)
qed

lemma parse_update_null:
  assumes "k \<in> {''name'', ''description'', ''is_active''}" and "k \<notin> fst ` set d"
  shows "parse_update P (PDict (AList.update k PNone d)) =
    map_sum id (\<lambda>m. m\<lparr>inst_fields_set := insert k (inst_fields_set m)\<rparr>)
      (parse_update P (PDict d))"
proof -
  let ?fs = "cls_fields ExampleUpdate"
  have none: "map_of d k = None" using assms(2) by (simp add: map_of_eq_None_iff)
  have k: "k \<in> fname ` set ?fs" using assms(1) by (auto simp: update_fields_simps)
  have nullable: "\<forall>f\<in>set ?fs. fdefault f = Some PNone \<and> (\<exists>t. fannot f = TNullable t)"
    by (simp add: update_fields_simps)
  have ex: "extra_errors (fname ` set ?fs) (AList.update k PNone d) =
      extra_errors (fname ` set ?fs) d"
    using k by (rule extra_errors_update)
  let ?d' = "AList.update k PNone d"
  let ?st' = "validate_fields P (PDict ?d') (map_of ?d') ?fs init_state"
  let ?st = "validate_fields P (PDict d) (map_of d) ?fs init_state"
  have x: "extra_errors (used_keys ?st') ?d' = extra_errors (used_keys ?st) d"
    by (simp only: extra_errors_fields ex)
  have m: "map_of ?d' = (map_of d)(k \<mapsto> PNone)"
    by (rule update_conv')
  have e: "errors ?st' = errors ?st" "model_dict ?st' = model_dict ?st"
    "fields_set ?st' = insert k (fields_set ?st)"
    unfolding m
    using fields_null [where get = "map_of d" and k = k and fs = ?fs and P = P
      and inp' = "PDict ?d'" and inp = "PDict d", OF none nullable] k
    by simp_all
  show ?thesis
    unfolding parse_update_def model_validate.simps validate_model_fields_def Let_def x e
    by simp
qed

lemma parse_update_fields_set:
  "parse_update P (PDict d) = Inr m \<Longrightarrow> inst_fields_set m \<subseteq> fst ` set d"
  by (simp add: parse_update_def vmf_Inr(4))

text \<open>
  C7. For the Update shape, leaving a field out is distinct from passing it as an
  explicit null: both are accepted and the field reads as null in both, but the
  instances differ, since only the second has the field in its \<^verbatim>\<open>model_fields_set\<close>.
  (\<open>AList.update k v d\<close> is the dictionary \<open>d\<close> after \<^verbatim>\<open>d[k] = v\<close>.)
\<close>

theorem parse_update_absent_vs_null:
  assumes "k \<in> {''name'', ''description'', ''is_active''}" and "k \<notin> fst ` set d"
    and "parse_update P (PDict d) = Inr m"
  shows "\<exists>m'. parse_update P (PDict (AList.update k PNone d)) = Inr m' \<and> m' \<noteq> m \<and>
           k \<notin> inst_fields_set m \<and> k \<in> inst_fields_set m' \<and> inst_dict m' = inst_dict m"
proof -
  from parse_update_fields_set [OF assms(3)] assms(2) have "k \<notin> inst_fields_set m" by blast
  moreover have "parse_update P (PDict (AList.update k PNone d)) =
      Inr (m\<lparr>inst_fields_set := insert k (inst_fields_set m)\<rparr>)"
    by (simp add: parse_update_null [OF assms(1,2)] assms(3))
  moreover from \<open>k \<notin> inst_fields_set m\<close>
  have "inst_fields_set (m\<lparr>inst_fields_set := insert k (inst_fields_set m)\<rparr>) \<noteq> inst_fields_set m"
    by auto
  then have "m\<lparr>inst_fields_set := insert k (inst_fields_set m)\<rparr> \<noteq> m" by metis
  ultimately show ?thesis by simp
qed

theorem parse_update_absent_vs_null_witness:
  "parse_update no_parsers (PDict []) =
     Inr \<lparr>inst_class = ''ExampleUpdate'',
          inst_dict = [(''name'', PNone), (''description'', PNone), (''is_active'', PNone)],
          inst_fields_set = {}\<rparr> \<and>
   (\<exists>m'. parse_update no_parsers (PDict [(''description'', PNone)]) = Inr m' \<and>
      m' \<noteq> \<lparr>inst_class = ''ExampleUpdate'',
          inst_dict = [(''name'', PNone), (''description'', PNone), (''is_active'', PNone)],
          inst_fields_set = {}\<rparr> \<and>
      ''description'' \<in> inst_fields_set m')"
proof -
  have p: "parse_update no_parsers (PDict []) =
     Inr \<lparr>inst_class = ''ExampleUpdate'',
          inst_dict = [(''name'', PNone), (''description'', PNone), (''is_active'', PNone)],
          inst_fields_set = {}\<rparr>"
    by (simp add: eval_defs)
  have k: "''description'' \<in> {''name'', ''description'', ''is_active''}"
    "''description'' \<notin> fst ` set ([] :: (string \<times> pyval) list)"
    by simp_all
  from parse_update_absent_vs_null [OF k p] p show ?thesis by auto
qed

text \<open>
  C10. \<^verbatim>\<open>parse_update\<close> accepts an explicit null for \<^verbatim>\<open>name\<close> (and for
  \<^verbatim>\<open>is_active\<close>) despite the length constraints on \<^verbatim>\<open>name\<close>: adding the null neither
  causes nor cures a failure, and on success the field values are those obtained when
  the field is omitted.
\<close>

theorem parse_update_null_field:
  assumes "k \<in> {''name'', ''is_active''}" and "k \<notin> fst ` set d"
  shows "(isl (parse_update P (PDict (AList.update k PNone d))) \<longleftrightarrow>
            isl (parse_update P (PDict d))) \<and>
         (\<forall>m. parse_update P (PDict d) = Inr m \<longrightarrow>
            (\<exists>m'. parse_update P (PDict (AList.update k PNone d)) = Inr m' \<and>
               inst_dict m' = inst_dict m \<and> getattr m' k = Some PNone)) \<and>
         (\<exists>m. parse_update P (PDict [(k, PNone)]) = Inr m \<and>
            inst_dict m = [(''name'', PNone), (''description'', PNone), (''is_active'', PNone)])"
proof -
  from assms(1) have k: "k \<in> {''name'', ''description'', ''is_active''}" by auto
  note eq = parse_update_null [OF k assms(2), of P]
  have single: "\<exists>m. parse_update P (PDict [(k, PNone)]) = Inr m \<and>
            inst_dict m = [(''name'', PNone), (''description'', PNone), (''is_active'', PNone)]"
    using assms(1)
    by (auto simp: parse_update_def ExampleUpdate_def validate_model_fields_def field_step_def
        init_state_def)
  have dict: "getattr m k = Some PNone" if "parse_update P (PDict d) = Inr m" for m
  proof -
    let ?s = "\<lambda>f. field_step P (PDict d) (map_of d) f init_state"
    let ?n = "\<lparr>fname = ''name'', fannot = TNullable (TStr (Some 1) (Some 100)),
          fdefault = Some PNone\<rparr>"
    let ?d = "\<lparr>fname = ''description'', fannot = TNullable (TStr None (Some 500)),
          fdefault = Some PNone\<rparr>"
    let ?a = "\<lparr>fname = ''is_active'', fannot = TNullable TBool, fdefault = Some PNone\<rparr>"
    from that have v: "validate_model_fields P ExampleUpdate (PDict d) False d = Inr m"
      by (simp add: parse_update_def)
    have none: "map_of d k = None" using assms(2) by (simp add: map_of_eq_None_iff)
    from vmf_Inr(3) [OF v] have e: "errors (?s ?n) = []" "errors (?s ?d) = []"
        "errors (?s ?a) = []"
      by (simp_all add: update_fields_simps)
    from step_dict_valid [OF e(1)] obtain x where x: "model_dict (?s ?n) = [(''name'', x)]"
      by auto
    from step_dict_valid [OF e(2)] obtain y where y: "model_dict (?s ?d) = [(''description'', y)]"
      by auto
    from step_dict_valid [OF e(3)] obtain z where z: "model_dict (?s ?a) = [(''is_active'', z)]"
      by auto
    from none x have kx: "k = ''name'' \<Longrightarrow> x = PNone"
      by (simp add: field_step_def init_state_def)
    from none z have kz: "k = ''is_active'' \<Longrightarrow> z = PNone"
      by (simp add: field_step_def init_state_def)
    from vmf_Inr(2) [OF v] x y z
    have "inst_dict m = [(''name'', x), (''description'', y), (''is_active'', z)]"
      by (simp add: update_fields_simps)
    with assms(1) kx kz show ?thesis by (auto simp: getattr_def)
  qed
  have "isl (parse_update P (PDict (AList.update k PNone d))) \<longleftrightarrow>
      isl (parse_update P (PDict d))"
    by (simp add: eq isl_map_sum)
  moreover have "\<exists>m'. parse_update P (PDict (AList.update k PNone d)) = Inr m' \<and>
      inst_dict m' = inst_dict m \<and> getattr m' k = Some PNone"
    if "parse_update P (PDict d) = Inr m" for m
    using dict [OF that] by (simp add: eq that getattr_def)
  ultimately show ?thesis using single by blast
qed

theorem parse_update_null_field_witness:
  "\<exists>m'. parse_update no_parsers (PDict [(''description'', PStr ''d''), (''name'', PNone)]) = Inr m' \<and>
      inst_dict m' = [(''name'', PNone), (''description'', PStr ''d''), (''is_active'', PNone)]"
proof -
  have p: "parse_update no_parsers (PDict [(''description'', PStr ''d'')]) =
     Inr \<lparr>inst_class = ''ExampleUpdate'',
          inst_dict = [(''name'', PNone), (''description'', PStr ''d''), (''is_active'', PNone)],
          inst_fields_set = {''description''}\<rparr>"
    by (simp add: eval_defs)
  have k: "''name'' \<in> {''name'', ''is_active''}"
    "''name'' \<notin> fst ` set [(''description'', PStr ''d'')]"
    by simp_all
  from parse_update_null_field [OF k, of no_parsers] p show ?thesis by auto
qed

section \<open>Error reports\<close>

text \<open>The kind that each length violation is reported with.\<close>

lemma validate_str_kinds:
  "length s < lo \<Longrightarrow> validate_str (Some lo) mx (PStr s) = Inl (StringTooShort lo)"
  "lo \<le> length s \<Longrightarrow> hi < length s \<Longrightarrow>
     validate_str (Some lo) (Some hi) (PStr s) = Inl (StringTooLong hi)"
  "hi < length s \<Longrightarrow> validate_str None (Some hi) (PStr s) = Inl (StringTooLong hi)"
  by simp_all

lemma shape_parse:
  assumes "(parse, cls) \<in> {(parse_create, ExampleCreate), (parse_update, ExampleUpdate),
             (parse_read, ExampleRead)}"
  shows "parse P x = model_validate P cls x"
    and "from_attributes cls \<longrightarrow> \<not> extra_forbid cls"
  using assms
  by (auto simp: parse_create_def parse_update_def parse_read_def ExampleCreate_def
      ExampleUpdate_def ExampleRead_def)

lemma shape_fields:
  assumes "(parse, cls) \<in> {(parse_create, ExampleCreate), (parse_update, ExampleUpdate),
             (parse_read, ExampleRead)}"
  shows "\<exists>f\<in>set (cls_fields cls). fname f = ''name'' \<and>
           (\<forall>s. validate_type P (fannot f) (PStr s) =
                  validate_str (Some 1) (Some 100) (PStr s))"
    and "\<exists>f\<in>set (cls_fields cls). fname f = ''description'' \<and>
           (\<forall>s. validate_type P (fannot f) (PStr s) = validate_str None (Some 500) (PStr s))"
  using assms
  by (auto simp: create_fields_simps update_fields_simps read_fields_simps
      simp del: validate_str.simps)

text \<open>
  C6 (as stated). On any failed parse every entry of the error is the entry of an
  invalid field and carries its field path. Not on any: an input that is neither a
  mapping nor (for Read) an object is rejected as a whole, with one entry whose path is
  empty.
\<close>

theorem parse_read_non_mapping_counterexample:
  "parse_read no_parsers (PInt 5) =
     Inl [\<lparr>loc = [], etype = ModelAttributesType, einput = PInt 5\<rparr>]"
  by (simp add: parse_read_def ExampleRead_def)

text \<open>
  C6 (amended). A failed parse returns one error value, never empty, and no instance.
  When the input is a mapping, or for Read an object, the error has exactly one entry
  per invalid field, for all of them and in declaration order, followed for Update by
  one entry per unknown key. Each entry carries the field path, the kind (and so the
  message) of the violation, and the offending value: the supplied value, or the whole
  input for a missing field. A \<^verbatim>\<open>name\<close> shorter than 1 character is reported as ``String
  should have at least 1 character'', one longer than 100 and a \<^verbatim>\<open>description\<close> longer
  than 500 as ``String should have at most 100 (500) characters''. Any other input
  gives a single entry with empty path that quotes the input.
\<close>

theorem validation_error_entries:
  assumes "(parse, cls) \<in> {(parse_create, ExampleCreate), (parse_update, ExampleUpdate),
             (parse_read, ExampleRead)}"
    and "parse P x = Inl errs"
  shows "errs \<noteq> [] \<and>
    (\<forall>d. input_fields cls x = Some d \<longrightarrow>
       map loc errs = invalid_paths P cls d \<and>
       (\<forall>e\<in>set errs. entry_reports P cls x d e) \<and>
       (\<forall>s. map_of d ''name'' = Some (PStr s) \<and> length s < 1 \<longrightarrow>
          \<lparr>loc = [''name''], etype = StringTooShort 1, einput = PStr s\<rparr> \<in> set errs) \<and>
       (\<forall>s. map_of d ''name'' = Some (PStr s) \<and> 100 < length s \<longrightarrow>
          \<lparr>loc = [''name''], etype = StringTooLong 100, einput = PStr s\<rparr> \<in> set errs) \<and>
       (\<forall>s. map_of d ''description'' = Some (PStr s) \<and> 500 < length s \<longrightarrow>
          \<lparr>loc = [''description''], etype = StringTooLong 500, einput = PStr s\<rparr>
            \<in> set errs)) \<and>
    (input_fields cls x = None \<longrightarrow>
       errs = [\<lparr>loc = [],
                etype = (if from_attributes cls then ModelAttributesType
                         else ModelType (cls_name cls)),
                einput = x\<rparr>]) \<and>
    message (StringTooShort 1) = ''String should have at least 1 character'' \<and>
    message (StringTooLong 100) = ''String should have at most 100 characters'' \<and>
    message (StringTooLong 500) = ''String should have at most 500 characters''"
proof -
  note sc = shape_parse [OF assms(1)] shape_fields [OF assms(1), of P]
  from assms(2) have mv: "model_validate P cls x = Inl errs"
    by (simp add: sc(1))
  then have nonempty: "errs \<noteq> []" by (rule model_validate_nonempty)
  have fields: "map loc errs = invalid_paths P cls d \<and>
       (\<forall>e\<in>set errs. entry_reports P cls x d e) \<and>
       (\<forall>s. map_of d ''name'' = Some (PStr s) \<and> length s < 1 \<longrightarrow>
          \<lparr>loc = [''name''], etype = StringTooShort 1, einput = PStr s\<rparr> \<in> set errs) \<and>
       (\<forall>s. map_of d ''name'' = Some (PStr s) \<and> 100 < length s \<longrightarrow>
          \<lparr>loc = [''name''], etype = StringTooLong 100, einput = PStr s\<rparr> \<in> set errs) \<and>
       (\<forall>s. map_of d ''description'' = Some (PStr s) \<and> 500 < length s \<longrightarrow>
          \<lparr>loc = [''description''], etype = StringTooLong 500, einput = PStr s\<rparr>
            \<in> set errs)"
    if d: "input_fields cls x = Some d" for d
  proof -
    from d mv sc(2) obtain b where
      v: "validate_model_fields P cls x b d = Inl errs" and b: "b \<longrightarrow> \<not> extra_forbid cls"
      by (cases x) (auto simp: input_fields_def split: if_splits)
    from sc(3) obtain fn :: field_info where fn: "fn \<in> set (cls_fields cls)"
      "fname fn = ''name''"
      "\<And>s. validate_type P (fannot fn) (PStr s) = validate_str (Some 1) (Some 100) (PStr s)"
      by blast
    from sc(4) obtain fd :: field_info where fd: "fd \<in> set (cls_fields cls)"
      "fname fd = ''description''"
      "\<And>s. validate_type P (fannot fd) (PStr s) = validate_str None (Some 500) (PStr s)"
      by blast
    have short: "\<lparr>loc = [''name''], etype = StringTooShort 1, einput = PStr s\<rparr> \<in> set errs"
      if "map_of d ''name'' = Some (PStr s)" "length s < 1" for s
      using vmf_error_mem [OF v fn(1), of "PStr s" "StringTooShort 1"] that
      by (simp add: fn validate_str_kinds del: validate_str.simps)
    have long: "\<lparr>loc = [''name''], etype = StringTooLong 100, einput = PStr s\<rparr> \<in> set errs"
      if "map_of d ''name'' = Some (PStr s)" "100 < length s" for s
      using vmf_error_mem [OF v fn(1), of "PStr s" "StringTooLong 100"] that
      by (simp add: fn validate_str_kinds del: validate_str.simps)
    have desc: "\<lparr>loc = [''description''], etype = StringTooLong 500, einput = PStr s\<rparr>
        \<in> set errs"
      if "map_of d ''description'' = Some (PStr s)" "500 < length s" for s
      using vmf_error_mem [OF v fd(1), of "PStr s" "StringTooLong 500"] that
      by (simp add: fd validate_str_kinds del: validate_str.simps)
    from vmf_locs [OF v b] vmf_reports [OF v] short long desc show ?thesis by blast
  qed
  have whole: "errs = [\<lparr>loc = [],
                etype = (if from_attributes cls then ModelAttributesType
                         else ModelType (cls_name cls)),
                einput = x\<rparr>]"
    if "input_fields cls x = None"
    using that mv by (cases x) (auto simp: input_fields_def split: if_splits)
  show ?thesis
    using nonempty fields whole message_too_short_1 message_too_long_100 message_too_long_500
    by blast
qed

theorem validation_error_entries_witness:
  "parse_update no_parsers (PDict [(''name'', PStr ''''), (''description'', PInt 3),
       (''extra_field'', PStr ''value'')]) =
     Inl [\<lparr>loc = [''name''], etype = StringTooShort 1, einput = PStr ''''\<rparr>,
          \<lparr>loc = [''description''], etype = StringType, einput = PInt 3\<rparr>,
          \<lparr>loc = [''extra_field''], etype = ExtraForbidden, einput = PStr ''value''\<rparr>] \<and>
   invalid_paths no_parsers ExampleUpdate [(''name'', PStr ''''), (''description'', PInt 3),
       (''extra_field'', PStr ''value'')] = [[''name''], [''description''], [''extra_field'']] \<and>
   map error_summary
     [\<lparr>loc = [''name''], etype = StringTooShort 1, einput = PStr ''''\<rparr>,
      \<lparr>loc = [''description''], etype = StringType, einput = PInt 3\<rparr>,
      \<lparr>loc = [''extra_field''], etype = ExtraForbidden, einput = PStr ''value''\<rparr>] =
     [([''name''], ''String should have at least 1 character'', ''str''),
      ([''description''], ''Input should be a valid string'', ''int''),
      ([''extra_field''], ''Extra inputs are not permitted'', ''str'')]"
proof -
  let ?d = "[(''name'', PStr ''''), (''description'', PInt 3),
       (''extra_field'', PStr ''value'')]"
  have p: "parse_update no_parsers (PDict ?d) =
     Inl [\<lparr>loc = [''name''], etype = StringTooShort 1, einput = PStr ''''\<rparr>,
          \<lparr>loc = [''description''], etype = StringType, einput = PInt 3\<rparr>,
          \<lparr>loc = [''extra_field''], etype = ExtraForbidden, einput = PStr ''value''\<rparr>]"
    by (simp add: eval_defs)
  have m: "(parse_update, ExampleUpdate) \<in> {(parse_create, ExampleCreate),
      (parse_update, ExampleUpdate), (parse_read, ExampleRead)}"
    by simp
  have i: "input_fields ExampleUpdate (PDict ?d) = Some ?d"
    by (simp add: input_fields_def)
  have r: "map error_summary
     [\<lparr>loc = [''name''], etype = StringTooShort 1, einput = PStr ''''\<rparr>,
      \<lparr>loc = [''description''], etype = StringType, einput = PInt 3\<rparr>,
      \<lparr>loc = [''extra_field''], etype = ExtraForbidden, einput = PStr ''value''\<rparr>] =
     [([''name''], ''String should have at least 1 character'', ''str''),
      ([''description''], ''Input should be a valid string'', ''int''),
      ([''extra_field''], ''Extra inputs are not permitted'', ''str'')]"
    by code_simp
  from validation_error_entries [OF m p] i have
    "map loc [\<lparr>loc = [''name''], etype = StringTooShort 1, einput = PStr ''''\<rparr>,
          \<lparr>loc = [''description''], etype = StringType, einput = PInt 3\<rparr>,
          \<lparr>loc = [''extra_field''], etype = ExtraForbidden, einput = PStr ''value''\<rparr>] =
      invalid_paths no_parsers ExampleUpdate ?d"
    by blast
  with p r show ?thesis by simp
qed

section \<open>Read from objects\<close>

text \<open>
  C8. For every input exposing the six fields, \<^verbatim>\<open>parse_read\<close> of an object with
  those attributes gives the same result as \<^verbatim>\<open>parse_read\<close> of the mapping with those
  keys.
\<close>

theorem parse_read_object_as_mapping:
  assumes "{''id'', ''name'', ''description'', ''is_active'', ''created_at'', ''updated_at''}
      \<subseteq> fst ` set a"
  shows "parse_read P (PObj c a) = parse_read P (PDict a)"
proof -
  have "\<forall>f\<in>set (cls_fields ExampleRead). fdefault f \<noteq> None \<or> map_of a (fname f) \<noteq> None"
    using assms by (simp add: read_fields_simps map_of_eq_None_iff)
  then have "validate_fields P (PObj c a) (map_of a) (cls_fields ExampleRead) init_state =
      validate_fields P (PDict a) (map_of a) (cls_fields ExampleRead) init_state"
    by (rule validate_fields_input)
  then show ?thesis
    by (simp add: parse_read_def validate_model_fields_def read_fields_simps(2,3))
qed

theorem parse_read_object_as_mapping_witness:
  "parse_read no_parsers (PObj ''MockORM''
     [(''id'', PInt 1), (''name'', PStr ''ORM Item''), (''description'', PStr ''ORM description''),
      (''is_active'', PBool True), (''created_at'', PDatetime sample_time),
      (''updated_at'', PDatetime sample_time)]) =
   parse_read no_parsers (PDict
     [(''id'', PInt 1), (''name'', PStr ''ORM Item''), (''description'', PStr ''ORM description''),
      (''is_active'', PBool True), (''created_at'', PDatetime sample_time),
      (''updated_at'', PDatetime sample_time)]) \<and>
   getattr (projr (parse_read no_parsers (PObj ''MockORM''
     [(''id'', PInt 1), (''name'', PStr ''ORM Item''), (''description'', PStr ''ORM description''),
      (''is_active'', PBool True), (''created_at'', PDatetime sample_time),
      (''updated_at'', PDatetime sample_time)]))) ''name'' = Some (PStr ''ORM Item'')"
proof -
  have "parse_read no_parsers (PObj ''MockORM''
     [(''id'', PInt 1), (''name'', PStr ''ORM Item''), (''description'', PStr ''ORM description''),
      (''is_active'', PBool True), (''created_at'', PDatetime sample_time),
      (''updated_at'', PDatetime sample_time)]) =
   parse_read no_parsers (PDict
     [(''id'', PInt 1), (''name'', PStr ''ORM Item''), (''description'', PStr ''ORM description''),
      (''is_active'', PBool True), (''created_at'', PDatetime sample_time),
      (''updated_at'', PDatetime sample_time)])"
    by (rule parse_read_object_as_mapping) simp
  moreover have "getattr (projr (parse_read no_parsers (PDict
     [(''id'', PInt 1), (''name'', PStr ''ORM Item''), (''description'', PStr ''ORM description''),
      (''is_active'', PBool True), (''created_at'', PDatetime sample_time),
      (''updated_at'', PDatetime sample_time)]))) ''name'' = Some (PStr ''ORM Item'')"
    by (simp add: eval_defs getattr_def)
  ultimately show ?thesis by simp
qed

end
